theory Spec2Isabelle
  imports Main
begin

section \<open>Values, dictionaries and HTTP data\<close>

text \<open>
  The handlers of \<^verbatim>\<open>saas/api/backend.py\<close> move Python values between the organization
  layer and the HTTP response. A Python dict is an association list in insertion order.
\<close>

datatype pyval =
    PNone
  | PBool bool
  | PInt int
  | PStr string
  | PList "pyval list"
  | PDict "(string \<times> pyval) list"

type_synonym dict = "(string \<times> pyval) list"

text \<open>Python truthiness, as \<^verbatim>\<open>if value:\<close> tests it.\<close>

fun truthy :: "pyval \<Rightarrow> bool" where
  "truthy PNone = False"
| "truthy (PBool b) = b"
| "truthy (PInt i) = (i \<noteq> 0)"
| "truthy (PStr s) = (s \<noteq> [])"
| "truthy (PList xs) = (xs \<noteq> [])"
| "truthy (PDict d) = (d \<noteq> [])"

text \<open>\<^verbatim>\<open>d[k] = v\<close>: an existing key keeps its place, a new key goes last.\<close>

fun dict_setitem :: "string \<Rightarrow> pyval \<Rightarrow> dict \<Rightarrow> dict" where
  "dict_setitem k v [] = [(k, v)]"
| "dict_setitem k v ((k', v') # d) =
     (if k' = k then (k, v) # d else (k', v') # dict_setitem k v d)"

text \<open>\<^verbatim>\<open>d.update(other)\<close>: every item of \<open>other\<close> is stored into \<open>d\<close>, in order.\<close>

fun dict_update :: "dict \<Rightarrow> dict \<Rightarrow> dict" where
  "dict_update d [] = d"
| "dict_update d ((k, v) # other) = dict_update (dict_setitem k v d) other"

text \<open>\<^verbatim>\<open>d.get(k, default)\<close>\<close>

definition dict_get :: "dict \<Rightarrow> string \<Rightarrow> pyval \<Rightarrow> pyval" where
  "dict_get d k dflt = (case map_of d k of None \<Rightarrow> dflt | Some v \<Rightarrow> v)"

definition keys :: "dict \<Rightarrow> string list" where
  "keys d = map fst d"

text \<open>
  \<^verbatim>\<open>kwargs.pop(k, default)\<close>; only the value popped is used by the caller.
\<close>

definition kwargs_pop :: "dict \<Rightarrow> string \<Rightarrow> pyval \<Rightarrow> pyval" where
  "kwargs_pop kwargs k dflt = dict_get kwargs k dflt"

text \<open>
  \<^verbatim>\<open>request.query_params\<close> is a multi-valued dictionary: each key has the list of the
  values given for it. Its \<^verbatim>\<open>get\<close> yields the last value, and the default when the key
  is absent or its list is empty.
\<close>

type_synonym querydict = "(string \<times> string list) list"

definition querydict_get :: "querydict \<Rightarrow> string \<Rightarrow> pyval \<Rightarrow> pyval" where
  "querydict_get q k dflt =
     (case map_of q k of
        None \<Rightarrow> dflt
      | Some [] \<Rightarrow> dflt
      | Some (v # vs) \<Rightarrow> PStr (last (v # vs)))"

text \<open>\<^verbatim>\<open>str.lower()\<close> on the ASCII letters of an HTTP method name.\<close>

definition char_lower :: "char \<Rightarrow> char" where
  "char_lower c =
     (case map_of (zip ''ABCDEFGHIJKLMNOPQRSTUVWXYZ'' ''abcdefghijklmnopqrstuvwxyz'') c of
        None \<Rightarrow> c
      | Some l \<Rightarrow> l)"

definition str_lower :: "string \<Rightarrow> string" where
  "str_lower s = map char_lower s"

record 'u request =
  http_method :: string
  request_data :: pyval
  query_params :: querydict
  user :: 'u

record response =
  data :: pyval
  status_code :: nat

definition HTTP_200_OK :: nat where
  "HTTP_200_OK = 200"

definition HTTP_400_BAD_REQUEST :: nat where
  "HTTP_400_BAD_REQUEST = 400"

definition HTTP_500_INTERNAL_SERVER_ERROR :: nat where
  "HTTP_500_INTERNAL_SERVER_ERROR = 500"

text \<open>
  \<^verbatim>\<open>Response(data, status=None)\<close> of rest_framework: without a status the response
  has status 200.
\<close>

definition Response :: "pyval \<Rightarrow> nat option \<Rightarrow> response" where
  "Response d st =
     \<lparr>data = d, status_code = (case st of None \<Rightarrow> HTTP_200_OK | Some s \<Rightarrow> s)\<rparr>"

section \<open>Exceptions\<close>

text \<open>
  The organization layer raises either \<^verbatim>\<open>ProcessorError\<close> (of \<^verbatim>\<open>saas.backends\<close>,
  or a subclass of it), which carries the reason the processor reported (its \<^verbatim>\<open>str\<close>),
  or some other exception. What leaves a handler is either rest_framework's \<^verbatim>\<open>ValidationError\<close>,
  or an exception of the organization layer that no handler caught.
\<close>

datatype 'e backend_exception =
    ProcessorError string
  | OtherException 'e

text \<open>
  The detail of a \<^verbatim>\<open>ValidationError\<close>: a list of messages (a detail that is neither
  a list nor a dict is wrapped into a one-element list of its \<^verbatim>\<open>str\<close>), or the
  messages of each field as a serializer reports them.
\<close>

datatype error_detail =
    Messages "string list"
  | FieldErrors "(string \<times> string list) list"

datatype 'e raised =
    ValidationError error_detail
  | Uncaught "'e backend_exception"

text \<open>
  The status the HTTP layer answers with, as rest_framework handles what a view returns or
  raises: the response's own status; 400 for a \<^verbatim>\<open>ValidationError\<close>; 500 for an
  exception of the organization layer that nothing caught.
\<close>

fun http_status :: "'e raised + response \<Rightarrow> nat" where
  "http_status (Inr resp) = status_code resp"
| "http_status (Inl (ValidationError detail)) = HTTP_400_BAD_REQUEST"
| "http_status (Inl (Uncaught e)) = HTTP_500_INTERNAL_SERVER_ERROR"

section \<open>Collaborators\<close>

text \<open>
  The organization's methods, \<^verbatim>\<open>get_broker\<close> and the processor backend's
  \<^verbatim>\<open>get_payment_context\<close> are not part of this file of the repository: they are
  parameters. Each is a function of the organization it is called on (Python's
  \<^verbatim>\<open>self\<close>) and of the state \<open>'w\<close> of everything outside the handler (the processor,
  the database); it returns what it returned or raised, and the state it left behind.
  \<open>get_payment_context env b s p k\<close> is
  \<^verbatim>\<open>b.processor_backend.get_payment_context(s, provider=p, broker=k)\<close>.
\<close>

record ('o, 'u, 'e, 'w) collaborators =
  retrieve_bank :: "'o \<Rightarrow> 'w \<Rightarrow> ('e backend_exception + pyval) \<times> 'w"
  retrieve_card :: "'o \<Rightarrow> 'w \<Rightarrow> ('e backend_exception + dict) \<times> 'w"
  update_card :: "'o \<Rightarrow> pyval \<Rightarrow> 'u \<Rightarrow> 'w \<Rightarrow> ('e backend_exception + dict) \<times> 'w"
  delete_card :: "'o \<Rightarrow> 'w \<Rightarrow> ('e backend_exception + unit) \<times> 'w"
  get_broker :: "'w \<Rightarrow> ('e backend_exception + 'o) \<times> 'w"
  get_payment_context ::
    "'o \<Rightarrow> 'o \<Rightarrow> 'o \<Rightarrow> 'o \<Rightarrow> 'w \<Rightarrow> ('e backend_exception + pyval) \<times> 'w"

text \<open>
  A serializer class, applied to \<^verbatim>\<open>data\<close> and \<^verbatim>\<open>partial\<close>, then asked
  \<^verbatim>\<open>is_valid(raise_exception=True)\<close>: the errors it raises with, or its
  \<^verbatim>\<open>validated_data\<close>.
\<close>

type_synonym serializer_class = "pyval \<Rightarrow> pyval \<Rightarrow> error_detail + dict"

record serializers =
  CardSerializer :: serializer_class
  CardTokenSerializer :: serializer_class

text \<open>
  Modelled from the spec: \<^verbatim>\<open>gettext_lazy\<close> of \<^verbatim>\<open>saas/compat.py\<close>, which is not in
  this file of the repository. The spec gives the confirmation messages as fixed texts, so the
  message marked for translation is the message returned.
\<close>

definition gettext_lazy :: "string \<Rightarrow> string" where
  "gettext_lazy msg = msg"

section \<open>RetrieveBankAPIView\<close>

definition RetrieveBankAPIView_retrieve ::
  "('o, 'u, 'e, 'w) collaborators \<Rightarrow> 'o \<Rightarrow> 'u request \<Rightarrow> 'w \<Rightarrow> ('e raised + response) \<times> 'w"
where
  "RetrieveBankAPIView_retrieve env organization request w =
     (case retrieve_bank env organization w of
        (Inl e, w') \<Rightarrow> (Inl (Uncaught e), w')
      | (Inr bank, w') \<Rightarrow> (Inr (Response bank None), w'))"

section \<open>PaymentMethodDetailAPIView\<close>

definition get_serializer_class :: "serializers \<Rightarrow> 'u request \<Rightarrow> serializer_class" where
  "get_serializer_class sers request =
     (if str_lower (http_method request) \<in> set [''put'']
      then CardTokenSerializer sers
      else CardSerializer sers)"

definition destroy ::
  "('o, 'u, 'e, 'w) collaborators \<Rightarrow> 'o \<Rightarrow> 'u request \<Rightarrow> 'w \<Rightarrow> ('e raised + response) \<times> 'w"
where
  "destroy env organization request w =
     (case delete_card env organization w of
        (Inl e, w') \<Rightarrow> (Inl (Uncaught e), w')
      | (Inr u, w') \<Rightarrow>
          (Inr (Response
                  (PDict [(''detail'',
                           PStr (gettext_lazy ''Your credit card is no longer on file with us.''))])
                  (Some HTTP_200_OK)),
           w'))"

definition retrieve ::
  "('o, 'u, 'e, 'w) collaborators \<Rightarrow> 'o \<Rightarrow> 'u request \<Rightarrow> 'w \<Rightarrow> ('e raised + response) \<times> 'w"
where
  "retrieve env organization request w =
     (case retrieve_card env organization w of
        (Inl e, w1) \<Rightarrow> (Inl (Uncaught e), w1)
      | (Inr resp_data, w1) \<Rightarrow>
          if truthy (querydict_get (query_params request) ''update'' (PBool False))
          then
            (case get_broker env w1 of
               (Inl e, w2) \<Rightarrow> (Inl (Uncaught e), w2)
             | (Inr broker, w2) \<Rightarrow>
                 (case get_payment_context env broker organization broker broker w2 of
                    (Inl e, w3) \<Rightarrow> (Inl (Uncaught e), w3)
                  | (Inr context, w3) \<Rightarrow>
                      (Inr (Response
                              (PDict (dict_update resp_data [(''processor'', context)]))
                              None),
                       w3)))
          else (Inr (Response (PDict resp_data) None), w1))"

definition update ::
  "('o, 'u, 'e, 'w) collaborators \<Rightarrow> serializers \<Rightarrow> 'o \<Rightarrow> 'u request \<Rightarrow> dict \<Rightarrow> 'w
     \<Rightarrow> ('e raised + response) \<times> 'w"
where
  "update env sers organization request kwargs w =
     (let partial = kwargs_pop kwargs ''partial'' (PBool False)
      in case get_serializer_class sers request (request_data request) partial of
           Inl errors \<Rightarrow> (Inl (ValidationError errors), w)
         | Inr validated_data \<Rightarrow>
             (let token = dict_get validated_data ''token'' PNone
              in case update_card env organization token (user request) w of
                   (Inl (ProcessorError err), w') \<Rightarrow>
                     (Inl (ValidationError (Messages [err])), w')
                 | (Inl (OtherException e), w') \<Rightarrow>
                     (Inl (Uncaught (OtherException e)), w')
                 | (Inr new_card, w') \<Rightarrow>
                     (Inr (Response
                             (PDict (dict_update new_card
                                [(''detail'',
                                  PStr (gettext_lazy
                                    ''Your credit card on file was sucessfully updated.''))]))
                             None),
                      w')))"

text \<open>
  The verbs delegate to the generic view of rest_framework, which calls \<^verbatim>\<open>retrieve\<close>
  for GET, \<^verbatim>\<open>update\<close> for PUT and \<^verbatim>\<open>destroy\<close> for DELETE. The keyword arguments
  of a PUT are those of the URL pattern, with no \<^verbatim>\<open>partial\<close> among them (only PATCH
  adds it), so \<^verbatim>\<open>update\<close> pops the default.
\<close>

definition get ::
  "('o, 'u, 'e, 'w) collaborators \<Rightarrow> 'o \<Rightarrow> 'u request \<Rightarrow> 'w \<Rightarrow> ('e raised + response) \<times> 'w"
where
  "get env organization request w = retrieve env organization request w"

definition put ::
  "('o, 'u, 'e, 'w) collaborators \<Rightarrow> serializers \<Rightarrow> 'o \<Rightarrow> 'u request \<Rightarrow> 'w
     \<Rightarrow> ('e raised + response) \<times> 'w"
where
  "put env sers organization request w = update env sers organization request [] w"

definition delete ::
  "('o, 'u, 'e, 'w) collaborators \<Rightarrow> 'o \<Rightarrow> 'u request \<Rightarrow> 'w \<Rightarrow> ('e raised + response) \<times> 'w"
where
  "delete env organization request w = destroy env organization request w"

section \<open>The organization layer and the serializers, from the spec\<close>

text \<open>
  The processor's side of the world: for each organization (named by its slug) the deposit
  account the processor reports, or the failure it answers with, and the card on file,
  if any.
\<close>

record bank_account =
  bank_name :: string
  last4 :: string
  balance_amount :: int
  balance_unit :: string

record 'e processor_state =
  bank_on_file :: "string \<Rightarrow> 'e backend_exception + bank_account"
  card_on_file :: "string \<Rightarrow> dict option"

text \<open>
  Modelled from the spec: \<^verbatim>\<open>Organization.retrieve_bank\<close> of \<^verbatim>\<open>saas/models.py\<close>, which
  is not in this file of the repository. It yields the BankAccount read view, with the
  fields \<^verbatim>\<open>bank_name\<close>, \<^verbatim>\<open>last4\<close>, \<^verbatim>\<open>balance_amount\<close> and \<^verbatim>\<open>balance_unit\<close>, fetched
  from the processor and never stored; a failure of the processor surfaces as it is.
\<close>

definition bank_read_view :: "bank_account \<Rightarrow> dict" where
  "bank_read_view b =
     [(''bank_name'', PStr (bank_name b)),
      (''last4'', PStr (last4 b)),
      (''balance_amount'', PInt (balance_amount b)),
      (''balance_unit'', PStr (balance_unit b))]"

definition retrieve_bank_spec ::
  "string \<Rightarrow> 'e processor_state \<Rightarrow> ('e backend_exception + pyval) \<times> 'e processor_state"
where
  "retrieve_bank_spec organization w =
     (case bank_on_file w organization of
        Inl e \<Rightarrow> (Inl e, w)
      | Inr b \<Rightarrow> (Inr (PDict (bank_read_view b)), w))"

text \<open>
  Modelled from the spec: \<^verbatim>\<open>Organization.delete_card\<close> of \<^verbatim>\<open>saas/models.py\<close>, which
  is not in this file of the repository. It removes the payment method on file at the
  processor; deleting a card that does not exist is not an error.
\<close>

definition delete_card_spec ::
  "string \<Rightarrow> 'e processor_state \<Rightarrow> ('e backend_exception + unit) \<times> 'e processor_state"
where
  "delete_card_spec organization w =
     (Inr (), w\<lparr>card_on_file := (card_on_file w)(organization := None)\<rparr>)"

text \<open>
  Modelled from the spec: the serializer classes of \<^verbatim>\<open>saas/api/serializers.py\<close>, which
  is not in this file of the repository. Validation is structural: the body is a
  dictionary, and each declared field is present and is a string. With \<^verbatim>\<open>partial\<close> a
  missing field is not an error. \<^verbatim>\<open>CardTokenSerializer\<close> declares the single required
  field \<^verbatim>\<open>token\<close>; \<^verbatim>\<open>CardSerializer\<close> declares the fields of the Card read view.
\<close>

fun field_errors :: "string list \<Rightarrow> bool \<Rightarrow> dict \<Rightarrow> (string \<times> string list) list" where
  "field_errors [] partial d = []"
| "field_errors (f # fs) partial d =
     (case map_of d f of
        None \<Rightarrow>
          (if partial then field_errors fs partial d
           else (f, [''This field is required.'']) # field_errors fs partial d)
      | Some (PStr s) \<Rightarrow> field_errors fs partial d
      | Some v \<Rightarrow> (f, [''Not a valid string.'']) # field_errors fs partial d)"

fun validated_fields :: "string list \<Rightarrow> dict \<Rightarrow> dict" where
  "validated_fields [] d = []"
| "validated_fields (f # fs) d =
     (case map_of d f of
        None \<Rightarrow> validated_fields fs d
      | Some v \<Rightarrow> (f, v) # validated_fields fs d)"

definition char_fields_serializer :: "string list \<Rightarrow> serializer_class" where
  "char_fields_serializer declared dat partial =
     (case dat of
        PDict d \<Rightarrow>
          (let errors = field_errors declared (truthy partial) d
           in if errors = [] then Inr (validated_fields declared d)
              else Inl (FieldErrors errors))
      | _ \<Rightarrow>
          Inl (FieldErrors
                 [(''non_field_errors'', [''Invalid data. Expected a dictionary.''])]))"

definition serializers_spec :: serializers where
  "serializers_spec =
     \<lparr>CardSerializer = char_fields_serializer [''last4'', ''exp_date''],
      CardTokenSerializer = char_fields_serializer [''token'']\<rparr>"

section \<open>A processor for concrete runs\<close>

text \<open>
  A stand-in for the organization layer, used to run the handlers on concrete requests:
  the token \<^verbatim>\<open>xyz\<close> is accepted and puts the card 1234 on file, the token \<^verbatim>\<open>bad\<close>
  is rejected by the processor with the reason \<^verbatim>\<open>Card declined\<close>, any other token
  meets a fault that is not a \<^verbatim>\<open>ProcessorError\<close>. The site's broker is the
  organization \<^verbatim>\<open>djaodjin\<close>, and the payment context tells which organizations it
  was asked for.
\<close>

definition card_1234 :: dict where
  "card_1234 = [(''last4'', PStr ''1234''), (''exp_date'', PStr ''12/2019'')]"

definition demo_env :: "(string, string, string, string processor_state) collaborators" where
  "demo_env =
     \<lparr>retrieve_bank = retrieve_bank_spec,
      retrieve_card =
        (\<lambda>organization w.
           (Inr (case card_on_file w organization of None \<Rightarrow> [] | Some c \<Rightarrow> c), w)),
      update_card =
        (\<lambda>organization token u w.
           if token = PStr ''xyz''
           then (Inr card_1234,
                 w\<lparr>card_on_file := (card_on_file w)(organization \<mapsto> card_1234)\<rparr>)
           else if token = PStr ''bad'' then (Inl (ProcessorError ''Card declined''), w)
           else (Inl (OtherException ''ConnectionError''), w)),
      delete_card = delete_card_spec,
      get_broker = (\<lambda>w. (Inr ''djaodjin'', w)),
      get_payment_context =
        (\<lambda>b subscriber provider broker w.
           (Inr (PDict [(''subscriber'', PStr subscriber),
                        (''provider'', PStr provider),
                        (''broker'', PStr broker)]), w))\<rparr>"

definition demo_state :: "string processor_state" where
  "demo_state =
     \<lparr>bank_on_file =
        (\<lambda>organization.
           Inr \<lparr>bank_name = ''Stripe Test Bank'', last4 = ''***-htrTZ'',
                balance_amount = 0, balance_unit = ''usd''\<rparr>),
      card_on_file = (\<lambda>organization. None)\<rparr>"

definition demo_request :: "string \<Rightarrow> pyval \<Rightarrow> querydict \<Rightarrow> string request" where
  "demo_request m body q =
     \<lparr>http_method = m, request_data = body, query_params = q, user = ''alice''\<rparr>"

section \<open>Dictionary facts\<close>

lemma map_of_dict_setitem: "map_of (dict_setitem k v d) = (map_of d)(k \<mapsto> v)"
  by (induction d) auto

lemma keys_dict_setitem: "set (keys (dict_setitem k v d)) = insert k (set (keys d))"
  by (simp add: keys_def dom_map_of_conv_image_fst [symmetric] map_of_dict_setitem)

lemma put_serializer:
  "str_lower (http_method request) = ''put'' \<Longrightarrow>
   get_serializer_class sers request = CardTokenSerializer sers"
  by (simp add: get_serializer_class_def)

lemma truthy_querydict_get:
  "truthy (querydict_get q k (PBool False))
     = (\<exists>vs. map_of q k = Some vs \<and> vs \<noteq> [] \<and> last vs \<noteq> [])"
  by (auto simp: querydict_get_def split: option.splits list.splits)

section \<open>GET /bank\<close>

text \<open>
  C7. For every GET /bank request the handler returns exactly the value of
  \<^verbatim>\<open>organization.retrieve_bank()\<close> as the response body, unmodified, with status 200.
  It performs no other call: the state left is the one \<^verbatim>\<open>retrieve_bank\<close> left, and
  replacing every other collaborator changes nothing.
\<close>

theorem bank_retrieve_verbatim:
  assumes "retrieve_bank env organization w = (Inr bank, w')"
  shows "RetrieveBankAPIView_retrieve env organization request w
           = (Inr \<lparr>data = bank, status_code = 200\<rparr>, w')
         \<and> RetrieveBankAPIView_retrieve
             (env\<lparr>retrieve_card := rc, update_card := uc, delete_card := dc,
                  get_broker := gb, get_payment_context := gpc\<rparr>) organization request w
           = RetrieveBankAPIView_retrieve env organization request w"
  using assms
  by (simp add: RetrieveBankAPIView_retrieve_def Response_def HTTP_200_OK_def)

theorem bank_retrieve_verbatim_witness:
  "retrieve_bank demo_env ''cowork'' demo_state
     = (Inr (PDict [(''bank_name'', PStr ''Stripe Test Bank''), (''last4'', PStr ''***-htrTZ''),
                    (''balance_amount'', PInt 0), (''balance_unit'', PStr ''usd'')]), demo_state)
   \<and> RetrieveBankAPIView_retrieve demo_env ''cowork'' (demo_request ''GET'' PNone []) demo_state
     = (Inr \<lparr>data = PDict [(''bank_name'', PStr ''Stripe Test Bank''),
                           (''last4'', PStr ''***-htrTZ''),
                           (''balance_amount'', PInt 0), (''balance_unit'', PStr ''usd'')],
             status_code = 200\<rparr>, demo_state)"
proof -
  have h: "retrieve_bank demo_env ''cowork'' demo_state
     = (Inr (PDict [(''bank_name'', PStr ''Stripe Test Bank''), (''last4'', PStr ''***-htrTZ''),
                    (''balance_amount'', PInt 0), (''balance_unit'', PStr ''usd'')]), demo_state)"
    by (simp add: demo_env_def retrieve_bank_spec_def demo_state_def bank_read_view_def)
  from bank_retrieve_verbatim [OF h] h show ?thesis by simp
qed

text \<open>
  C8. For every GET /bank request that is answered, the response body contains exactly the
  four fields \<^verbatim>\<open>bank_name\<close>, \<^verbatim>\<open>last4\<close>, \<^verbatim>\<open>balance_amount\<close>, \<^verbatim>\<open>balance_unit\<close>,
  never a part of them. The handler passes on what \<^verbatim>\<open>retrieve_bank\<close> returns, so the
  shape is that of the BankAccount read view of the organization layer.
\<close>

theorem bank_response_fields:
  assumes "retrieve_bank env = retrieve_bank_spec"
    and "fst (RetrieveBankAPIView_retrieve env organization request w) = Inr resp"
  shows "\<exists>body. data resp = PDict body
           \<and> keys body = [''bank_name'', ''last4'', ''balance_amount'', ''balance_unit'']"
  using assms
  by (auto simp: RetrieveBankAPIView_retrieve_def retrieve_bank_spec_def Response_def
        bank_read_view_def keys_def split: sum.splits)

theorem bank_response_fields_witness:
  "retrieve_bank demo_env = retrieve_bank_spec
   \<and> fst (RetrieveBankAPIView_retrieve demo_env ''cowork'' (demo_request ''GET'' PNone [])
            demo_state)
       = Inr \<lparr>data = PDict [(''bank_name'', PStr ''Stripe Test Bank''),
                            (''last4'', PStr ''***-htrTZ''),
                            (''balance_amount'', PInt 0), (''balance_unit'', PStr ''usd'')],
              status_code = 200\<rparr>
   \<and> (\<exists>body. PDict [(''bank_name'', PStr ''Stripe Test Bank''),
                     (''last4'', PStr ''***-htrTZ''),
                     (''balance_amount'', PInt 0), (''balance_unit'', PStr ''usd'')] = PDict body
        \<and> keys body = [''bank_name'', ''last4'', ''balance_amount'', ''balance_unit''])"
proof -
  have h1: "retrieve_bank demo_env = retrieve_bank_spec"
    by (simp add: demo_env_def)
  have h2: "fst (RetrieveBankAPIView_retrieve demo_env ''cowork'' (demo_request ''GET'' PNone [])
                   demo_state)
       = Inr \<lparr>data = PDict [(''bank_name'', PStr ''Stripe Test Bank''),
                            (''last4'', PStr ''***-htrTZ''),
                            (''balance_amount'', PInt 0), (''balance_unit'', PStr ''usd'')],
              status_code = 200\<rparr>"
    by (simp add: RetrieveBankAPIView_retrieve_def h1 retrieve_bank_spec_def demo_state_def
          bank_read_view_def Response_def HTTP_200_OK_def)
  from bank_response_fields [OF h1 h2] h1 h2 show ?thesis by simp
qed

section \<open>DELETE /card\<close>

text \<open>
  C5. For every DELETE request the handler calls \<^verbatim>\<open>organization.delete_card()\<close>
  unconditionally and, once it returned, answers with status 200 and the fixed body
  \<^verbatim>\<open>{"detail": "Your credit card is no longer on file with us."}\<close>, whatever the state
  was. With the \<^verbatim>\<open>delete_card\<close> of the organization layer, which does not fail when no
  card is on file, two DELETE requests in a row both get that answer: the second is no
  error, and leaves the state as the first did.
\<close>

theorem delete_fixed_response:
  "(delete_card env organization w = (Inr u, w1)
      \<longrightarrow> delete env organization request w
            = (Inr \<lparr>data = PDict [(''detail'',
                                     PStr ''Your credit card is no longer on file with us.'')],
                    status_code = 200\<rparr>, w1))
   \<and> (delete_card env' = delete_card_spec
      \<longrightarrow> delete env' organization' request1 w'
            = (Inr \<lparr>data = PDict [(''detail'',
                                     PStr ''Your credit card is no longer on file with us.'')],
                    status_code = 200\<rparr>,
               w'\<lparr>card_on_file := (card_on_file w')(organization' := None)\<rparr>)
          \<and> delete env' organization' request2
              (snd (delete env' organization' request1 w'))
            = (Inr \<lparr>data = PDict [(''detail'',
                                     PStr ''Your credit card is no longer on file with us.'')],
                    status_code = 200\<rparr>,
               w'\<lparr>card_on_file := (card_on_file w')(organization' := None)\<rparr>))"
  by (simp add: delete_def destroy_def delete_card_spec_def Response_def HTTP_200_OK_def
        gettext_lazy_def)

theorem delete_fixed_response_witness:
  "delete_card demo_env ''xia'' demo_state
     = (Inr (), demo_state\<lparr>card_on_file := (card_on_file demo_state)(''xia'' := None)\<rparr>)
   \<and> delete_card demo_env = delete_card_spec
   \<and> card_on_file demo_state ''xia'' = None
   \<and> delete demo_env ''xia'' (demo_request ''DELETE'' PNone []) demo_state
     = (Inr \<lparr>data = PDict [(''detail'',
                              PStr ''Your credit card is no longer on file with us.'')],
             status_code = 200\<rparr>,
        demo_state\<lparr>card_on_file := (card_on_file demo_state)(''xia'' := None)\<rparr>)
   \<and> delete demo_env ''xia'' (demo_request ''DELETE'' PNone [])
        (snd (delete demo_env ''xia'' (demo_request ''DELETE'' PNone []) demo_state))
     = (Inr \<lparr>data = PDict [(''detail'',
                              PStr ''Your credit card is no longer on file with us.'')],
             status_code = 200\<rparr>,
        demo_state\<lparr>card_on_file := (card_on_file demo_state)(''xia'' := None)\<rparr>)"
proof -
  have h1: "delete_card demo_env ''xia'' demo_state
     = (Inr (), demo_state\<lparr>card_on_file := (card_on_file demo_state)(''xia'' := None)\<rparr>)"
    by (simp add: demo_env_def delete_card_spec_def)
  have h2: "delete_card demo_env = delete_card_spec"
    by (simp add: demo_env_def)
  have h3: "card_on_file demo_state ''xia'' = None"
    by (simp add: demo_state_def)
  from delete_fixed_response
         [of demo_env "''xia''" demo_state "()"
             "demo_state\<lparr>card_on_file := (card_on_file demo_state)(''xia'' := None)\<rparr>"
             "demo_request ''DELETE'' PNone []" demo_env "''xia''"
             "demo_request ''DELETE'' PNone []" demo_state
             "demo_request ''DELETE'' PNone []"]
       h1 h2 h3
  show ?thesis by blast
qed


section \<open>GET /card\<close>

lemma retrieve_plain:
  assumes "\<not> truthy (querydict_get (query_params request) ''update'' (PBool False))"
  shows "retrieve env organization request w =
     (case retrieve_card env organization w of
        (Inl e, w1) \<Rightarrow> (Inl (Uncaught e), w1)
      | (Inr resp_data, w1) \<Rightarrow> (Inr \<lparr>data = PDict resp_data, status_code = 200\<rparr>, w1))"
  using assms
  by (simp add: retrieve_def Response_def HTTP_200_OK_def split: prod.splits sum.splits)

lemma retrieve_flagged:
  assumes "truthy (querydict_get (query_params request) ''update'' (PBool False))"
    and "fst (retrieve env organization request w) = Inr resp"
  shows "\<exists>resp_data w1 broker w2 context w3.
           retrieve_card env organization w = (Inr resp_data, w1)
         \<and> get_broker env w1 = (Inr broker, w2)
         \<and> get_payment_context env broker organization broker broker w2 = (Inr context, w3)
         \<and> retrieve env organization request w = (Inr resp, w3)
         \<and> resp = \<lparr>data = PDict (dict_setitem ''processor'' context resp_data),
                    status_code = 200\<rparr>"
  using assms
  by (auto simp: retrieve_def Response_def HTTP_200_OK_def split: prod.splits sum.splits)

text \<open>
  C2, as the code has it. For every GET /card request in which the \<^verbatim>\<open>update\<close> query flag
  is truthy, the handler, after calling \<^verbatim>\<open>organization.retrieve_card()\<close>, asks for the
  site's broker, fetches a PaymentContext from the broker's processor backend for the
  organization, with the broker as the provider and as the broker, and stores it into the
  card read view under the key \<^verbatim>\<open>processor\<close>; every other key of the card read view is
  kept, and the answer has status 200.
\<close>

theorem get_update_context:
  assumes "truthy (querydict_get (query_params request) ''update'' (PBool False))"
    and "retrieve_card env organization w = (Inr resp_data, w1)"
    and "get_broker env w1 = (Inr broker, w2)"
    and "get_payment_context env broker organization broker broker w2 = (Inr context, w3)"
  shows "get env organization request w
           = (Inr \<lparr>data = PDict (dict_setitem ''processor'' context resp_data),
                   status_code = 200\<rparr>, w3)
         \<and> map_of (dict_setitem ''processor'' context resp_data) ''processor'' = Some context
         \<and> (\<forall>k. k \<noteq> ''processor''
                \<longrightarrow> map_of (dict_setitem ''processor'' context resp_data) k
                      = map_of resp_data k)"
  using assms
  by (simp add: get_def retrieve_def Response_def HTTP_200_OK_def map_of_dict_setitem)

theorem get_update_context_witness:
  "truthy (querydict_get
             (query_params (demo_request ''GET'' PNone [(''update'', [''1''])]))
             ''update'' (PBool False))
   \<and> retrieve_card demo_env ''xia'' (demo_state\<lparr>card_on_file := [''xia'' \<mapsto> card_1234]\<rparr>)
       = (Inr card_1234, demo_state\<lparr>card_on_file := [''xia'' \<mapsto> card_1234]\<rparr>)
   \<and> get_broker demo_env (demo_state\<lparr>card_on_file := [''xia'' \<mapsto> card_1234]\<rparr>)
       = (Inr ''djaodjin'', demo_state\<lparr>card_on_file := [''xia'' \<mapsto> card_1234]\<rparr>)
   \<and> get demo_env ''xia'' (demo_request ''GET'' PNone [(''update'', [''1''])])
        (demo_state\<lparr>card_on_file := [''xia'' \<mapsto> card_1234]\<rparr>)
       = (Inr \<lparr>data = PDict
                 [(''last4'', PStr ''1234''), (''exp_date'', PStr ''12/2019''),
                  (''processor'',
                   PDict [(''subscriber'', PStr ''xia''), (''provider'', PStr ''djaodjin''),
                          (''broker'', PStr ''djaodjin'')])],
               status_code = 200\<rparr>,
          demo_state\<lparr>card_on_file := [''xia'' \<mapsto> card_1234]\<rparr>)"
proof -
  let ?w = "demo_state\<lparr>card_on_file := [''xia'' \<mapsto> card_1234]\<rparr>"
  let ?ctx = "PDict [(''subscriber'', PStr ''xia''), (''provider'', PStr ''djaodjin''),
                     (''broker'', PStr ''djaodjin'')]"
  have h1: "truthy (querydict_get
             (query_params (demo_request ''GET'' PNone [(''update'', [''1''])]))
             ''update'' (PBool False))"
    by (simp add: demo_request_def querydict_get_def)
  have h2: "retrieve_card demo_env ''xia'' ?w = (Inr card_1234, ?w)"
    by (simp add: demo_env_def)
  have h3: "get_broker demo_env ?w = (Inr ''djaodjin'', ?w)"
    by (simp add: demo_env_def)
  have h4: "get_payment_context demo_env ''djaodjin'' ''xia'' ''djaodjin'' ''djaodjin'' ?w
              = (Inr ?ctx, ?w)"
    by (simp add: demo_env_def)
  have "get demo_env ''xia'' (demo_request ''GET'' PNone [(''update'', [''1''])]) ?w
          = (Inr \<lparr>data = PDict (dict_setitem ''processor'' ?ctx card_1234),
                  status_code = 200\<rparr>, ?w)"
    using get_update_context [OF h1 h2 h3 h4] by blast
  moreover have "dict_setitem ''processor'' ?ctx card_1234
          = [(''last4'', PStr ''1234''), (''exp_date'', PStr ''12/2019''), (''processor'', ?ctx)]"
    by (simp add: card_1234_def)
  ultimately show ?thesis using h1 h2 h3 by simp
qed

text \<open>
  C2, as it is stated, has the PaymentContext scoped to the organization as provider and as
  broker. For the organization \<^verbatim>\<open>xia\<close> on a site whose broker is \<^verbatim>\<open>djaodjin\<close>, the
  context in the response is the one of the provider and broker \<^verbatim>\<open>djaodjin\<close>, which is
  not the context of the provider and broker \<^verbatim>\<open>xia\<close>.
\<close>

theorem get_update_context_counterexample:
  "get demo_env ''xia'' (demo_request ''GET'' PNone [(''update'', [''1''])]) demo_state
     = (Inr \<lparr>data = PDict
               [(''processor'',
                 PDict [(''subscriber'', PStr ''xia''), (''provider'', PStr ''djaodjin''),
                        (''broker'', PStr ''djaodjin'')])],
             status_code = 200\<rparr>, demo_state)
   \<and> get_payment_context demo_env ''djaodjin'' ''xia'' ''xia'' ''xia'' demo_state
     = (Inr (PDict [(''subscriber'', PStr ''xia''), (''provider'', PStr ''xia''),
                    (''broker'', PStr ''xia'')]), demo_state)
   \<and> PDict [(''subscriber'', PStr ''xia''), (''provider'', PStr ''djaodjin''),
            (''broker'', PStr ''djaodjin'')]
     \<noteq> PDict [(''subscriber'', PStr ''xia''), (''provider'', PStr ''xia''),
              (''broker'', PStr ''xia'')]"
  by (simp add: get_def retrieve_def demo_env_def demo_request_def demo_state_def
        querydict_get_def Response_def HTTP_200_OK_def)

text \<open>
  C3. For every GET /card request without an \<^verbatim>\<open>update\<close> query parameter the response
  equals the card read view returned by \<^verbatim>\<open>organization.retrieve_card()\<close> and, as that
  view has no \<^verbatim>\<open>processor\<close> key, contains none; for every GET /card request with
  \<^verbatim>\<open>update=1\<close> the response contains a \<^verbatim>\<open>processor\<close> key.
\<close>

theorem get_processor_key:
  "(map_of (query_params request) ''update'' = None
      \<and> retrieve_card env organization w = (Inr resp_data, w1)
      \<and> ''processor'' \<notin> set (keys resp_data)
    \<longrightarrow> (\<exists>body. get env organization request w
                 = (Inr \<lparr>data = PDict body, status_code = 200\<rparr>, w1)
               \<and> body = resp_data \<and> ''processor'' \<notin> set (keys body)))
   \<and> (map_of (query_params request) ''update'' = Some [''1'']
      \<and> fst (get env organization request w) = Inr resp
    \<longrightarrow> (\<exists>body. data resp = PDict body \<and> ''processor'' \<in> set (keys body)))"
proof (intro conjI impI)
  assume h: "map_of (query_params request) ''update'' = None
      \<and> retrieve_card env organization w = (Inr resp_data, w1)
      \<and> ''processor'' \<notin> set (keys resp_data)"
  then have "\<not> truthy (querydict_get (query_params request) ''update'' (PBool False))"
    by (simp add: truthy_querydict_get)
  from retrieve_plain [OF this, of env organization w] h
  show "\<exists>body. get env organization request w
                 = (Inr \<lparr>data = PDict body, status_code = 200\<rparr>, w1)
               \<and> body = resp_data \<and> ''processor'' \<notin> set (keys body)"
    by (simp add: get_def)
next
  assume h: "map_of (query_params request) ''update'' = Some [''1'']
      \<and> fst (get env organization request w) = Inr resp"
  then have t: "truthy (querydict_get (query_params request) ''update'' (PBool False))"
    by (simp add: truthy_querydict_get)
  from h have "fst (retrieve env organization request w) = Inr resp"
    by (simp add: get_def)
  from retrieve_flagged [OF t this]
  show "\<exists>body. data resp = PDict body \<and> ''processor'' \<in> set (keys body)"
    by (auto simp: keys_dict_setitem)
qed


theorem get_processor_key_witness:
  "map_of (query_params (demo_request ''GET'' PNone [])) ''update'' = None
   \<and> retrieve_card demo_env ''xia'' (demo_state\<lparr>card_on_file := [''xia'' \<mapsto> card_1234]\<rparr>)
       = (Inr card_1234, demo_state\<lparr>card_on_file := [''xia'' \<mapsto> card_1234]\<rparr>)
   \<and> ''processor'' \<notin> set (keys card_1234)
   \<and> get demo_env ''xia'' (demo_request ''GET'' PNone [])
        (demo_state\<lparr>card_on_file := [''xia'' \<mapsto> card_1234]\<rparr>)
       = (Inr \<lparr>data = PDict card_1234, status_code = 200\<rparr>,
          demo_state\<lparr>card_on_file := [''xia'' \<mapsto> card_1234]\<rparr>)
   \<and> map_of (query_params (demo_request ''GET'' PNone [(''update'', [''1''])])) ''update''
       = Some [''1'']
   \<and> fst (get demo_env ''xia'' (demo_request ''GET'' PNone [(''update'', [''1''])])
             (demo_state\<lparr>card_on_file := [''xia'' \<mapsto> card_1234]\<rparr>))
       = Inr \<lparr>data = PDict
                [(''last4'', PStr ''1234''), (''exp_date'', PStr ''12/2019''),
                 (''processor'',
                  PDict [(''subscriber'', PStr ''xia''), (''provider'', PStr ''djaodjin''),
                         (''broker'', PStr ''djaodjin'')])],
              status_code = 200\<rparr>
   \<and> ''processor'' \<in> set (keys
         [(''last4'', PStr ''1234''), (''exp_date'', PStr ''12/2019''),
          (''processor'',
           PDict [(''subscriber'', PStr ''xia''), (''provider'', PStr ''djaodjin''),
                  (''broker'', PStr ''djaodjin'')])])"
proof -
  let ?w = "demo_state\<lparr>card_on_file := [''xia'' \<mapsto> card_1234]\<rparr>"
  let ?plain = "demo_request ''GET'' PNone []"
  let ?flagged = "demo_request ''GET'' PNone [(''update'', [''1''])]"
  let ?body = "[(''last4'', PStr ''1234''), (''exp_date'', PStr ''12/2019''),
                (''processor'',
                 PDict [(''subscriber'', PStr ''xia''), (''provider'', PStr ''djaodjin''),
                        (''broker'', PStr ''djaodjin'')])]"
  have a1: "map_of (query_params ?plain) ''update'' = None"
    by (simp add: demo_request_def)
  have a2: "retrieve_card demo_env ''xia'' ?w = (Inr card_1234, ?w)"
    by (simp add: demo_env_def)
  have a3: "''processor'' \<notin> set (keys card_1234)"
    by (simp add: keys_def card_1234_def)
  have b1: "map_of (query_params ?flagged) ''update'' = Some [''1'']"
    by (simp add: demo_request_def)
  have b2: "fst (get demo_env ''xia'' ?flagged ?w)
              = Inr \<lparr>data = PDict ?body, status_code = 200\<rparr>"
    by (simp add: get_def retrieve_def demo_env_def demo_request_def querydict_get_def
          Response_def HTTP_200_OK_def card_1234_def)
  have c1: "get demo_env ''xia'' ?plain ?w
              = (Inr \<lparr>data = PDict card_1234, status_code = 200\<rparr>, ?w)"
    using get_processor_key [of ?plain demo_env "''xia''" ?w card_1234 ?w] a1 a2 a3
    by blast
  have c2: "''processor'' \<in> set (keys ?body)"
    using get_processor_key
            [of ?flagged demo_env "''xia''" ?w _ _ "\<lparr>data = PDict ?body, status_code = 200\<rparr>"]
          b1 b2
    by auto
  from a1 a2 a3 b1 b2 c1 c2 show ?thesis by blast
qed

text \<open>
  C9. For every GET /card request the handler tests the raw value of the \<^verbatim>\<open>update\<close>
  query parameter for truthiness: the \<^verbatim>\<open>processor\<close> key is in the response whenever the
  parameter is given with a non-empty string (its last value, when it is given several
  times), the string \<^verbatim>\<open>0\<close> included; when the parameter is absent or empty the response
  is the card read view alone.
\<close>

theorem get_update_truthiness:
  "(map_of (query_params request) ''update'' = Some vs \<and> vs \<noteq> [] \<and> last vs \<noteq> []
      \<and> fst (get env organization request w) = Inr resp
    \<longrightarrow> (\<exists>body. data resp = PDict body \<and> ''processor'' \<in> set (keys body)))
   \<and> ((map_of (query_params request) ''update'' = None
         \<or> map_of (query_params request) ''update'' = Some []
         \<or> (\<exists>us. map_of (query_params request) ''update'' = Some us
                  \<and> us \<noteq> [] \<and> last us = []))
      \<and> retrieve_card env organization w = (Inr resp_data, w1)
    \<longrightarrow> get env organization request w
          = (Inr \<lparr>data = PDict resp_data, status_code = 200\<rparr>, w1))"
proof (intro conjI impI)
  assume h: "map_of (query_params request) ''update'' = Some vs \<and> vs \<noteq> [] \<and> last vs \<noteq> []
      \<and> fst (get env organization request w) = Inr resp"
  then have t: "truthy (querydict_get (query_params request) ''update'' (PBool False))"
    by (simp add: truthy_querydict_get)
  from h have "fst (retrieve env organization request w) = Inr resp"
    by (simp add: get_def)
  from retrieve_flagged [OF t this]
  show "\<exists>body. data resp = PDict body \<and> ''processor'' \<in> set (keys body)"
    by (auto simp: keys_dict_setitem)
next
  assume h: "(map_of (query_params request) ''update'' = None
         \<or> map_of (query_params request) ''update'' = Some []
         \<or> (\<exists>us. map_of (query_params request) ''update'' = Some us
                  \<and> us \<noteq> [] \<and> last us = []))
      \<and> retrieve_card env organization w = (Inr resp_data, w1)"
  then have "\<not> truthy (querydict_get (query_params request) ''update'' (PBool False))"
    by (auto simp: truthy_querydict_get)
  from retrieve_plain [OF this, of env organization w] h
  show "get env organization request w
          = (Inr \<lparr>data = PDict resp_data, status_code = 200\<rparr>, w1)"
    by (simp add: get_def)
qed

theorem get_update_truthiness_witness:
  "map_of (query_params (demo_request ''GET'' PNone [(''update'', [''0''])])) ''update''
       = Some [''0'']
   \<and> fst (get demo_env ''xia'' (demo_request ''GET'' PNone [(''update'', [''0''])]) demo_state)
       = Inr \<lparr>data = PDict
                [(''processor'',
                  PDict [(''subscriber'', PStr ''xia''), (''provider'', PStr ''djaodjin''),
                         (''broker'', PStr ''djaodjin'')])],
              status_code = 200\<rparr>
   \<and> ''processor'' \<in> set (keys
         [(''processor'',
           PDict [(''subscriber'', PStr ''xia''), (''provider'', PStr ''djaodjin''),
                  (''broker'', PStr ''djaodjin'')])])
   \<and> map_of (query_params (demo_request ''GET'' PNone [(''update'', [''''])])) ''update''
       = Some ['''']
   \<and> retrieve_card demo_env ''xia'' demo_state = (Inr [], demo_state)
   \<and> get demo_env ''xia'' (demo_request ''GET'' PNone [(''update'', [''''])]) demo_state
       = (Inr \<lparr>data = PDict [], status_code = 200\<rparr>, demo_state)"
proof -
  let ?zero = "demo_request ''GET'' PNone [(''update'', [''0''])]"
  let ?empty = "demo_request ''GET'' PNone [(''update'', [''''])]"
  let ?body = "[(''processor'',
                 PDict [(''subscriber'', PStr ''xia''), (''provider'', PStr ''djaodjin''),
                        (''broker'', PStr ''djaodjin'')])]"
  have a1: "map_of (query_params ?zero) ''update'' = Some [''0'']"
    by (simp add: demo_request_def)
  have a2: "fst (get demo_env ''xia'' ?zero demo_state)
              = Inr \<lparr>data = PDict ?body, status_code = 200\<rparr>"
    by (simp add: get_def retrieve_def demo_env_def demo_request_def demo_state_def
          querydict_get_def Response_def HTTP_200_OK_def)
  have b1: "map_of (query_params ?empty) ''update'' = Some ['''']"
    by (simp add: demo_request_def)
  have b2: "retrieve_card demo_env ''xia'' demo_state = (Inr [], demo_state)"
    by (simp add: demo_env_def demo_state_def)
  have c1: "''processor'' \<in> set (keys ?body)"
    using get_update_truthiness
            [of ?zero "[''0'']" demo_env "''xia''" demo_state
                "\<lparr>data = PDict ?body, status_code = 200\<rparr>"]
          a1 a2
    by auto
  have c2: "get demo_env ''xia'' ?empty demo_state
              = (Inr \<lparr>data = PDict [], status_code = 200\<rparr>, demo_state)"
    using get_update_truthiness [of ?empty _ demo_env "''xia''" demo_state _ "[]" demo_state]
          b1 b2
    by auto
  from a1 a2 b1 b2 c1 c2 show ?thesis by blast
qed


section \<open>PUT /card\<close>

lemma put_valid:
  assumes "str_lower (http_method request) = ''put''"
    and "CardTokenSerializer sers (request_data request) (PBool False) = Inr validated_data"
  shows "put env sers organization request w =
     (case update_card env organization (dict_get validated_data ''token'' PNone)
             (user request) w of
        (Inl (ProcessorError err), w') \<Rightarrow> (Inl (ValidationError (Messages [err])), w')
      | (Inl (OtherException e), w') \<Rightarrow> (Inl (Uncaught (OtherException e)), w')
      | (Inr new_card, w') \<Rightarrow>
          (Inr \<lparr>data = PDict (dict_setitem ''detail''
                   (PStr ''Your credit card on file was sucessfully updated.'') new_card),
                status_code = 200\<rparr>, w'))"
  using assms
  by (simp add: put_def update_def put_serializer kwargs_pop_def dict_get_def Response_def
        HTTP_200_OK_def gettext_lazy_def split: prod.splits sum.splits backend_exception.splits)

lemma put_invalid:
  assumes "str_lower (http_method request) = ''put''"
    and "CardTokenSerializer sers (request_data request) (PBool False) = Inl errors"
  shows "put env sers organization request w = (Inl (ValidationError errors), w)"
  using assms
  by (simp add: put_def update_def put_serializer kwargs_pop_def dict_get_def)

lemma demo_put_method: "str_lower (http_method (demo_request ''PUT'' body q)) = ''put''"
  by (simp add: demo_request_def str_lower_def char_lower_def)

lemma demo_token_valid:
  "CardTokenSerializer serializers_spec
     (request_data (demo_request ''PUT'' (PDict [(''token'', PStr t)]) q)) (PBool False)
   = Inr [(''token'', PStr t)]"
  by (simp add: serializers_spec_def char_fields_serializer_def demo_request_def)

text \<open>
  C1. For every PUT request with a structurally valid body: if
  \<^verbatim>\<open>organization.update_card\<close> raises a \<^verbatim>\<open>ProcessorError\<close>, the handler raises a
  validation failure (status 400) whose message is the reason the processor reported; any
  other exception of \<^verbatim>\<open>update_card\<close> is not caught and leaves the handler as it is, a
  server-side failure (status 500); a \<^verbatim>\<open>ProcessorError\<close> never leaves the handler
  uncaught.
\<close>

theorem put_error_mapping:
  assumes "str_lower (http_method request) = ''put''"
    and "CardTokenSerializer sers (request_data request) (PBool False) = Inr validated_data"
  shows "(update_card env organization (dict_get validated_data ''token'' PNone)
            (user request) w = (Inl (ProcessorError reason), w')
          \<longrightarrow> put env sers organization request w
                = (Inl (ValidationError (Messages [reason])), w')
              \<and> http_status (fst (put env sers organization request w)) = 400)
       \<and> (update_card env organization (dict_get validated_data ''token'' PNone)
            (user request) w = (Inl (OtherException e), w')
          \<longrightarrow> put env sers organization request w = (Inl (Uncaught (OtherException e)), w')
              \<and> http_status (fst (put env sers organization request w)) = 500)
       \<and> fst (put env sers organization request w) \<noteq> Inl (Uncaught (ProcessorError reason'))"
  by (simp add: put_valid [OF assms] HTTP_400_BAD_REQUEST_def
        HTTP_500_INTERNAL_SERVER_ERROR_def split: prod.splits sum.splits backend_exception.splits)

theorem put_error_mapping_witness:
  "str_lower (http_method (demo_request ''PUT'' (PDict [(''token'', PStr ''bad'')]) [])) = ''put''
   \<and> CardTokenSerializer serializers_spec
        (request_data (demo_request ''PUT'' (PDict [(''token'', PStr ''bad'')]) [])) (PBool False)
       = Inr [(''token'', PStr ''bad'')]
   \<and> update_card demo_env ''xia'' (dict_get [(''token'', PStr ''bad'')] ''token'' PNone)
        (user (demo_request ''PUT'' (PDict [(''token'', PStr ''bad'')]) [])) demo_state
       = (Inl (ProcessorError ''Card declined''), demo_state)
   \<and> put demo_env serializers_spec ''xia''
        (demo_request ''PUT'' (PDict [(''token'', PStr ''bad'')]) []) demo_state
       = (Inl (ValidationError (Messages [''Card declined''])), demo_state)
   \<and> http_status (fst (put demo_env serializers_spec ''xia''
        (demo_request ''PUT'' (PDict [(''token'', PStr ''bad'')]) []) demo_state)) = 400
   \<and> update_card demo_env ''xia'' (dict_get [(''token'', PStr ''tok'')] ''token'' PNone)
        (user (demo_request ''PUT'' (PDict [(''token'', PStr ''tok'')]) [])) demo_state
       = (Inl (OtherException ''ConnectionError''), demo_state)
   \<and> put demo_env serializers_spec ''xia''
        (demo_request ''PUT'' (PDict [(''token'', PStr ''tok'')]) []) demo_state
       = (Inl (Uncaught (OtherException ''ConnectionError'')), demo_state)
   \<and> http_status (fst (put demo_env serializers_spec ''xia''
        (demo_request ''PUT'' (PDict [(''token'', PStr ''tok'')]) []) demo_state)) = 500"
proof -
  let ?bad = "demo_request ''PUT'' (PDict [(''token'', PStr ''bad'')]) []"
  let ?tok = "demo_request ''PUT'' (PDict [(''token'', PStr ''tok'')]) []"
  have a1: "str_lower (http_method ?bad) = ''put''"
    by (rule demo_put_method)
  have a2: "CardTokenSerializer serializers_spec (request_data ?bad) (PBool False)
              = Inr [(''token'', PStr ''bad'')]"
    by (rule demo_token_valid)
  have a3: "update_card demo_env ''xia'' (dict_get [(''token'', PStr ''bad'')] ''token'' PNone)
              (user ?bad) demo_state = (Inl (ProcessorError ''Card declined''), demo_state)"
    by (simp add: demo_env_def dict_get_def)
  have b1: "str_lower (http_method ?tok) = ''put''"
    by (rule demo_put_method)
  have b2: "CardTokenSerializer serializers_spec (request_data ?tok) (PBool False)
              = Inr [(''token'', PStr ''tok'')]"
    by (rule demo_token_valid)
  have b3: "update_card demo_env ''xia'' (dict_get [(''token'', PStr ''tok'')] ''token'' PNone)
              (user ?tok) demo_state = (Inl (OtherException ''ConnectionError''), demo_state)"
    by (simp add: demo_env_def dict_get_def)
  from put_error_mapping
         [OF a1 a2, where env = demo_env and organization = "''xia''" and w = demo_state
            and reason = "''Card declined''" and w' = demo_state]
       a3
  have c1: "put demo_env serializers_spec ''xia'' ?bad demo_state
              = (Inl (ValidationError (Messages [''Card declined''])), demo_state)
            \<and> http_status (fst (put demo_env serializers_spec ''xia'' ?bad demo_state)) = 400"
    by blast
  from put_error_mapping
         [OF b1 b2, where env = demo_env and organization = "''xia''" and w = demo_state
            and e = "''ConnectionError''" and w' = demo_state]
       b3
  have c2: "put demo_env serializers_spec ''xia'' ?tok demo_state
              = (Inl (Uncaught (OtherException ''ConnectionError'')), demo_state)
            \<and> http_status (fst (put demo_env serializers_spec ''xia'' ?tok demo_state)) = 500"
    by blast
  from a1 a2 a3 b3 c1 c2 show ?thesis by blast
qed

text \<open>
  C4. For every PUT request whose token the processor accepts, the handler answers with
  status 200 and a body equal to the card read view returned by
  \<^verbatim>\<open>organization.update_card\<close>, \<^verbatim>\<open>last4\<close> and \<^verbatim>\<open>exp_date\<close> included, with the
  \<^verbatim>\<open>detail\<close> set to the message
  \<^verbatim>\<open>Your credit card on file was sucessfully updated.\<close>, which is not empty.
\<close>

theorem put_accepted:
  assumes "str_lower (http_method request) = ''put''"
    and "CardTokenSerializer sers (request_data request) (PBool False) = Inr validated_data"
    and "update_card env organization (dict_get validated_data ''token'' PNone)
           (user request) w = (Inr new_card, w')"
  shows "\<exists>body. put env sers organization request w
             = (Inr \<lparr>data = PDict body, status_code = 200\<rparr>, w')
           \<and> body = dict_setitem ''detail''
                 (PStr ''Your credit card on file was sucessfully updated.'') new_card
           \<and> map_of body ''detail''
               = Some (PStr ''Your credit card on file was sucessfully updated.'')
           \<and> ''Your credit card on file was sucessfully updated.'' \<noteq> ''''
           \<and> map_of body ''last4'' = map_of new_card ''last4''
           \<and> map_of body ''exp_date'' = map_of new_card ''exp_date''
           \<and> set (keys body) = insert ''detail'' (set (keys new_card))"
  by (simp add: put_valid [OF assms(1,2)] assms(3) map_of_dict_setitem keys_dict_setitem)

theorem put_accepted_witness:
  "str_lower (http_method (demo_request ''PUT'' (PDict [(''token'', PStr ''xyz'')]) [])) = ''put''
   \<and> CardTokenSerializer serializers_spec
        (request_data (demo_request ''PUT'' (PDict [(''token'', PStr ''xyz'')]) [])) (PBool False)
       = Inr [(''token'', PStr ''xyz'')]
   \<and> update_card demo_env ''xia'' (dict_get [(''token'', PStr ''xyz'')] ''token'' PNone)
        (user (demo_request ''PUT'' (PDict [(''token'', PStr ''xyz'')]) [])) demo_state
       = (Inr card_1234,
          demo_state\<lparr>card_on_file := (card_on_file demo_state)(''xia'' \<mapsto> card_1234)\<rparr>)
   \<and> put demo_env serializers_spec ''xia''
        (demo_request ''PUT'' (PDict [(''token'', PStr ''xyz'')]) []) demo_state
       = (Inr \<lparr>data = PDict
                 [(''last4'', PStr ''1234''), (''exp_date'', PStr ''12/2019''),
                  (''detail'', PStr ''Your credit card on file was sucessfully updated.'')],
               status_code = 200\<rparr>,
          demo_state\<lparr>card_on_file := (card_on_file demo_state)(''xia'' \<mapsto> card_1234)\<rparr>)"
proof -
  let ?req = "demo_request ''PUT'' (PDict [(''token'', PStr ''xyz'')]) []"
  let ?w' = "demo_state\<lparr>card_on_file := (card_on_file demo_state)(''xia'' \<mapsto> card_1234)\<rparr>"
  have a1: "str_lower (http_method ?req) = ''put''"
    by (rule demo_put_method)
  have a2: "CardTokenSerializer serializers_spec (request_data ?req) (PBool False)
              = Inr [(''token'', PStr ''xyz'')]"
    by (rule demo_token_valid)
  have a3: "update_card demo_env ''xia'' (dict_get [(''token'', PStr ''xyz'')] ''token'' PNone)
              (user ?req) demo_state = (Inr card_1234, ?w')"
    by (simp add: demo_env_def dict_get_def)
  from put_accepted [OF a1 a2 a3]
  have "put demo_env serializers_spec ''xia'' ?req demo_state
          = (Inr \<lparr>data = PDict (dict_setitem ''detail''
                     (PStr ''Your credit card on file was sucessfully updated.'') card_1234),
                  status_code = 200\<rparr>, ?w')"
    by blast
  moreover have "dict_setitem ''detail''
                   (PStr ''Your credit card on file was sucessfully updated.'') card_1234
      = [(''last4'', PStr ''1234''), (''exp_date'', PStr ''12/2019''),
         (''detail'', PStr ''Your credit card on file was sucessfully updated.'')]"
    by (simp add: card_1234_def)
  ultimately show ?thesis using a1 a2 a3 by simp
qed


text \<open>
  C6. For every PUT request, the structural validation of the body comes before any call of
  the processor: when the serializer rejects the body (a missing or an invalid
  \<^verbatim>\<open>token\<close>), the handler raises a client validation failure (status 400) with the
  serializer's errors, and \<^verbatim>\<open>organization.update_card\<close> is not called: whatever
  \<^verbatim>\<open>update_card\<close> would do, the state is the one before the request.
\<close>

theorem put_validation_first:
  assumes "str_lower (http_method request) = ''put''"
    and "CardTokenSerializer sers (request_data request) (PBool False) = Inl errors"
  shows "put (env\<lparr>update_card := uc\<rparr>) sers organization request w
           = (Inl (ValidationError errors), w)
         \<and> http_status (fst (put (env\<lparr>update_card := uc\<rparr>) sers organization request w))
             = 400"
  by (simp add: put_invalid [OF assms] HTTP_400_BAD_REQUEST_def)

theorem put_validation_first_witness:
  "str_lower (http_method (demo_request ''PUT'' (PDict []) [])) = ''put''
   \<and> CardTokenSerializer serializers_spec
        (request_data (demo_request ''PUT'' (PDict []) [])) (PBool False)
       = Inl (FieldErrors [(''token'', [''This field is required.''])])
   \<and> CardTokenSerializer serializers_spec
        (request_data (demo_request ''PUT'' (PDict [(''token'', PInt 5)]) [])) (PBool False)
       = Inl (FieldErrors [(''token'', [''Not a valid string.''])])
   \<and> card_on_file demo_state ''xia'' = None
   \<and> card_on_file
        (snd (update_card
                (demo_env\<lparr>update_card :=
                   (\<lambda>organization token u w.
                      (Inr card_1234,
                       w\<lparr>card_on_file := (\<lambda>organization. Some card_1234)\<rparr>))\<rparr>)
                ''xia'' PNone ''alice'' demo_state)) ''xia'' = Some card_1234
   \<and> put (demo_env\<lparr>update_card :=
             (\<lambda>organization token u w.
                (Inr card_1234, w\<lparr>card_on_file := (\<lambda>organization. Some card_1234)\<rparr>))\<rparr>)
        serializers_spec ''xia'' (demo_request ''PUT'' (PDict []) []) demo_state
       = (Inl (ValidationError (FieldErrors [(''token'', [''This field is required.''])])),
          demo_state)
   \<and> put (demo_env\<lparr>update_card :=
             (\<lambda>organization token u w.
                (Inr card_1234, w\<lparr>card_on_file := (\<lambda>organization. Some card_1234)\<rparr>))\<rparr>)
        serializers_spec ''xia'' (demo_request ''PUT'' (PDict [(''token'', PInt 5)]) [])
        demo_state
       = (Inl (ValidationError (FieldErrors [(''token'', [''Not a valid string.''])])),
          demo_state)"
proof -
  let ?missing = "demo_request ''PUT'' (PDict []) []"
  let ?invalid = "demo_request ''PUT'' (PDict [(''token'', PInt 5)]) []"
  have a1: "str_lower (http_method ?missing) = ''put''"
    by (rule demo_put_method)
  have a2: "CardTokenSerializer serializers_spec (request_data ?missing) (PBool False)
              = Inl (FieldErrors [(''token'', [''This field is required.''])])"
    by (simp add: serializers_spec_def char_fields_serializer_def demo_request_def)
  have b1: "str_lower (http_method ?invalid) = ''put''"
    by (rule demo_put_method)
  have b2: "CardTokenSerializer serializers_spec (request_data ?invalid) (PBool False)
              = Inl (FieldErrors [(''token'', [''Not a valid string.''])])"
    by (simp add: serializers_spec_def char_fields_serializer_def demo_request_def)
  have s1: "card_on_file demo_state ''xia'' = None"
    by (simp add: demo_state_def)
  let ?uc = "(\<lambda>organization token u w.
                (Inr card_1234, w\<lparr>card_on_file := (\<lambda>organization. Some card_1234)\<rparr>))
             :: string \<Rightarrow> pyval \<Rightarrow> string \<Rightarrow> string processor_state
                  \<Rightarrow> (string backend_exception + dict) \<times> string processor_state"
  have s2: "card_on_file
        (snd (update_card (demo_env\<lparr>update_card := ?uc\<rparr>) ''xia'' PNone ''alice'' demo_state))
        ''xia'' = Some card_1234"
    by simp
  have c1: "put (demo_env\<lparr>update_card := ?uc\<rparr>) serializers_spec ''xia'' ?missing demo_state
       = (Inl (ValidationError (FieldErrors [(''token'', [''This field is required.''])])),
          demo_state)"
    using put_validation_first
            [OF a1 a2, where env = demo_env and uc = ?uc and organization = "''xia''"
               and w = demo_state]
    by simp
  have c2: "put (demo_env\<lparr>update_card := ?uc\<rparr>) serializers_spec ''xia'' ?invalid demo_state
       = (Inl (ValidationError (FieldErrors [(''token'', [''Not a valid string.''])])),
          demo_state)"
    using put_validation_first
            [OF b1 b2, where env = demo_env and uc = ?uc and organization = "''xia''"
               and w = demo_state]
    by simp
  from a1 a2 b2 s1 s2 c1 c2 show ?thesis by blast
qed

text \<open>
  C10. For every successful PUT, every key of the dictionary returned by
  \<^verbatim>\<open>organization.update_card\<close> other than \<^verbatim>\<open>detail\<close> is in the response body with
  its value unchanged, and the body has no further key but \<^verbatim>\<open>detail\<close>, which is set
  to the fixed confirmation message, in place of any \<^verbatim>\<open>detail\<close> the processor's
  result already had.
\<close>

theorem put_frame:
  assumes "str_lower (http_method request) = ''put''"
    and "CardTokenSerializer sers (request_data request) (PBool False) = Inr validated_data"
    and "update_card env organization (dict_get validated_data ''token'' PNone)
           (user request) w = (Inr new_card, w')"
  shows "\<exists>body. fst (put env sers organization request w)
             = Inr \<lparr>data = PDict body, status_code = 200\<rparr>
           \<and> (\<forall>k. k \<noteq> ''detail'' \<longrightarrow> map_of body k = map_of new_card k)
           \<and> map_of body ''detail''
               = Some (PStr ''Your credit card on file was sucessfully updated.'')
           \<and> set (keys body) = insert ''detail'' (set (keys new_card))"
  by (simp add: put_valid [OF assms(1,2)] assms(3) map_of_dict_setitem keys_dict_setitem)

theorem put_frame_witness:
  "str_lower (http_method (demo_request ''PUT'' (PDict [(''token'', PStr ''xyz'')]) [])) = ''put''
   \<and> CardTokenSerializer serializers_spec
        (request_data (demo_request ''PUT'' (PDict [(''token'', PStr ''xyz'')]) [])) (PBool False)
       = Inr [(''token'', PStr ''xyz'')]
   \<and> update_card
        (demo_env\<lparr>update_card :=
           (\<lambda>organization token u w.
              (Inr [(''detail'', PStr ''card replaced''), (''last4'', PStr ''1234'')], w))\<rparr>)
        ''xia'' (dict_get [(''token'', PStr ''xyz'')] ''token'' PNone)
        (user (demo_request ''PUT'' (PDict [(''token'', PStr ''xyz'')]) [])) demo_state
       = (Inr [(''detail'', PStr ''card replaced''), (''last4'', PStr ''1234'')], demo_state)
   \<and> (\<exists>body. fst (put
          (demo_env\<lparr>update_card :=
             (\<lambda>organization token u w.
                (Inr [(''detail'', PStr ''card replaced''), (''last4'', PStr ''1234'')], w))\<rparr>)
          serializers_spec ''xia''
          (demo_request ''PUT'' (PDict [(''token'', PStr ''xyz'')]) []) demo_state)
         = Inr \<lparr>data = PDict body, status_code = 200\<rparr>
       \<and> map_of body ''last4''
           = map_of [(''detail'', PStr ''card replaced''), (''last4'', PStr ''1234'')] ''last4''
       \<and> map_of body ''detail''
           = Some (PStr ''Your credit card on file was sucessfully updated.''))
   \<and> fst (put
          (demo_env\<lparr>update_card :=
             (\<lambda>organization token u w.
                (Inr [(''detail'', PStr ''card replaced''), (''last4'', PStr ''1234'')], w))\<rparr>)
          serializers_spec ''xia''
          (demo_request ''PUT'' (PDict [(''token'', PStr ''xyz'')]) []) demo_state)
       = Inr \<lparr>data = PDict
                [(''detail'', PStr ''Your credit card on file was sucessfully updated.''),
                 (''last4'', PStr ''1234'')],
              status_code = 200\<rparr>"
proof -
  let ?req = "demo_request ''PUT'' (PDict [(''token'', PStr ''xyz'')]) []"
  let ?new = "[(''detail'', PStr ''card replaced''), (''last4'', PStr ''1234'')]"
  let ?env = "demo_env\<lparr>update_card := (\<lambda>organization token u w. (Inr ?new, w))\<rparr>"
  have a1: "str_lower (http_method ?req) = ''put''"
    by (rule demo_put_method)
  have a2: "CardTokenSerializer serializers_spec (request_data ?req) (PBool False)
              = Inr [(''token'', PStr ''xyz'')]"
    by (rule demo_token_valid)
  have a3: "update_card ?env ''xia'' (dict_get [(''token'', PStr ''xyz'')] ''token'' PNone)
              (user ?req) demo_state = (Inr ?new, demo_state)"
    by simp
  have c: "\<exists>body. fst (put ?env serializers_spec ''xia'' ?req demo_state)
             = Inr \<lparr>data = PDict body, status_code = 200\<rparr>
           \<and> map_of body ''last4'' = map_of ?new ''last4''
           \<and> map_of body ''detail''
               = Some (PStr ''Your credit card on file was sucessfully updated.'')"
    using put_frame [OF a1 a2 a3] by auto
  have d: "fst (put ?env serializers_spec ''xia'' ?req demo_state)
       = Inr \<lparr>data = PDict
                [(''detail'', PStr ''Your credit card on file was sucessfully updated.''),
                 (''last4'', PStr ''1234'')],
              status_code = 200\<rparr>"
    by (simp add: put_valid [OF a1 a2] dict_get_def)
  from a1 a2 a3 c d show ?thesis by blast
qed


end
